theory Spec2Isabelle
  imports Complex_Main "HOL-Library.List_Lexorder" "HOL-Library.Char_ord"
begin

section \<open>Flood-complaint pipeline: spatial join and aggregation by census tract\<close>

text \<open>
  The development embeds \<^verbatim>\<open>scripts/data_processing.py\<close> and the entry point
  \<^verbatim>\<open>scripts/run_analysis.py\<close>. Data frames are lists of rows, a row is a record of the
  columns the code reads, exceptions are values of a sum type, and printing and file
  writing act on an explicit \<open>world\<close>.
\<close>

subsection \<open>Exceptions\<close>

datatype py_error =
    ValueError string
  | ZeroDivisionError
  | AttributeError string

subsection \<open>Rows of the two input tables\<close>

type_synonym point = "real \<times> real"

text \<open>A polygon is the list of its exterior ring's vertices, as handed to \<^verbatim>\<open>Polygon([...])\<close>.\<close>

type_synonym polygon = "point list"

text \<open>A row of the complaints table (\<^verbatim>\<open>create_sample_311_data\<close>, lines 129-143).\<close>

record complaint =
  Unique_Key :: int
  Complaint_Type :: string
  Latitude :: real
  Longitude :: real

text \<open>A row of the census table (\<^verbatim>\<open>create_sample_census_data\<close>, lines 209-222).\<close>

record tract =
  GEOID :: string
  NAME :: string
  median_income :: int
  population :: int
  pct_college :: real
  pct_poverty :: real
  pct_owner_occupied :: real
  pct_minority :: real
  geometry :: polygon

subsection \<open>Column arithmetic of the data-frame library\<close>

text \<open>
  A float64 cell. Finite values are kept as exact reals (rounding is not modelled); the
  three special values are the ones element-wise division produces for a zero divisor.
\<close>

datatype float64 = Finite real | PosInf | NegInf | NaN

text \<open>
  Element-wise \<^verbatim>\<open>/\<close> of two numeric columns: no exception on a zero divisor, the cell
  becomes \<open>inf\<close>, \<open>-inf\<close> or \<open>nan\<close>.
\<close>

definition true_divide :: "real \<Rightarrow> real \<Rightarrow> float64" where
  "true_divide a b =
     (if b = 0 then (if a = 0 then NaN else if 0 < a then PosInf else NegInf)
      else Finite (a / b))"

text \<open>Element-wise \<^verbatim>\<open>*\<close> of a float64 column by a scalar.\<close>

fun multiply :: "float64 \<Rightarrow> real \<Rightarrow> float64" where
  "multiply (Finite x) k = Finite (x * k)"
| "multiply PosInf k = (if 0 < k then PosInf else if k < 0 then NegInf else NaN)"
| "multiply NegInf k = (if 0 < k then NegInf else if k < 0 then PosInf else NaN)"
| "multiply NaN k = NaN"

subsection \<open>The world: standard output, files, and the random module's state\<close>

text \<open>
  A row of the joined table: the complaint with its index in the left table, and the
  columns of the matched census row together with \<^verbatim>\<open>index_right\<close>, or \<open>None\<close> when
  all right-hand columns are missing (NaN).
\<close>

record joined_row =
  index_left :: nat
  left_row :: complaint
  right_match :: "(nat \<times> tract) option"

text \<open>A row of the aggregated table: the census row and the two added columns.\<close>

record aggregated =
  region :: tract
  complaint_count :: nat
  complaint_rate :: float64

datatype printed =
    Text string
  | Unmatched_report nat real

datatype file_content =
    Joined_csv "joined_row list"
  | Aggregated_geojson "aggregated list"

record world =
  stdout :: "printed list"
  files :: "(string \<times> file_content) list"
  random_state :: nat

definition print :: "printed \<Rightarrow> world \<Rightarrow> world" where
  "print line w = w\<lparr>stdout := stdout w @ [line]\<rparr>"

text \<open>Writing a file replaces what was stored under the path.\<close>

definition write_file :: "string \<Rightarrow> file_content \<Rightarrow> world \<Rightarrow> world" where
  "write_file path content w =
     w\<lparr>files := (path, content) # filter (\<lambda>(p, c). p \<noteq> path) (files w)\<rparr>"

subsection \<open>\<^verbatim>\<open>aggregate_by_census_tract\<close> (lines 293-322)\<close>

text \<open>The \<^verbatim>\<open>GEOID\<close> column of the joined table; \<open>None\<close> is a missing value.\<close>

definition joined_GEOID :: "joined_row \<Rightarrow> string option" where
  "joined_GEOID r = map_option (\<lambda>(j, t). GEOID t) (right_match r)"

text \<open>
  \<^verbatim>\<open>joined_df.groupby('GEOID').size().reset_index(name='complaint_count')\<close>: one row per
  distinct key in sorted order, rows with a missing key are left out.
\<close>

definition groupby_size :: "joined_row list \<Rightarrow> (string \<times> nat) list" where
  "groupby_size joined_df =
     (let keys = List.map_filter joined_GEOID joined_df
      in map (\<lambda>g. (g, count_list keys g)) (sort (remdups keys)))"

text \<open>
  \<^verbatim>\<open>census_gdf.merge(complaint_counts, on='GEOID', how='left')\<close>: every census row, in
  order, once for each row of the counts with the same key, and once with a missing
  count when there is none.
\<close>

definition merge_left :: "tract list \<Rightarrow> (string \<times> nat) list \<Rightarrow> (tract \<times> nat option) list" where
  "merge_left census_gdf complaint_counts =
     concat (map (\<lambda>t.
       (let hits = filter (\<lambda>(g, n). g = GEOID t) complaint_counts
        in if hits = [] then [(t, None)] else map (\<lambda>(g, n). (t, Some n)) hits))
       census_gdf)"

text \<open>\<^verbatim>\<open>fillna(0)\<close> on the count column.\<close>

definition fillna0 :: "nat option \<Rightarrow> nat" where
  "fillna0 c = (case c of None \<Rightarrow> 0 | Some n \<Rightarrow> n)"

text \<open>Line 316: \<^verbatim>\<open>(complaint_count / population) * 1000\<close>.\<close>

definition rate_per_1000 :: "nat \<Rightarrow> int \<Rightarrow> float64" where
  "rate_per_1000 cnt pop = multiply (true_divide (real cnt) (real_of_int pop)) 1000"

definition aggregate_rows :: "joined_row list \<Rightarrow> tract list \<Rightarrow> aggregated list" where
  "aggregate_rows joined_df census_gdf =
     map (\<lambda>(t, c). \<lparr>region = t, complaint_count = fillna0 c,
                    complaint_rate = rate_per_1000 (fillna0 c) (population t)\<rparr>)
       (merge_left census_gdf (groupby_size joined_df))"

definition aggregate_by_census_tract ::
  "joined_row list \<Rightarrow> tract list \<Rightarrow> world \<Rightarrow> aggregated list \<times> world" where
  "aggregate_by_census_tract joined_df census_gdf w =
     (let w1 = print (Text ''Aggregating complaints by census tract...'') w;
          aggregated_gdf = aggregate_rows joined_df census_gdf;
          w2 = write_file ''../data/processed/aggregated_flood_complaints_2019.geojson''
                 (Aggregated_geojson aggregated_gdf) w1
      in (aggregated_gdf, w2))"

subsection \<open>\<^verbatim>\<open>spatial_join_with_census\<close> (lines 257-291)\<close>

text \<open>\<^verbatim>\<open>gpd.points_from_xy(complaints_df.Longitude, complaints_df.Latitude)\<close>.\<close>

definition points_from_xy :: "complaint \<Rightarrow> point" where
  "points_from_xy c = (Longitude c, Latitude c)"

text \<open>
  \<^verbatim>\<open>gpd.sjoin(left, right, how="left", predicate="within")\<close>. The predicate of the
  geometry library is the parameter \<open>pred\<close>. Every left row yields one output row for
  each right row whose geometry it is within, and one row with missing right-hand columns
  when there is none.
\<close>

definition sjoin_left ::
  "(point \<Rightarrow> polygon \<Rightarrow> bool) \<Rightarrow> complaint list \<Rightarrow> tract list \<Rightarrow> joined_row list" where
  "sjoin_left pred left_df right_df =
     concat (map (\<lambda>(i, c).
       (let hits = filter (\<lambda>(j, t). pred (points_from_xy c) (geometry t))
                     (enumerate 0 right_df)
        in if hits = [] then [\<lparr>index_left = i, left_row = c, right_match = None\<rparr>]
           else map (\<lambda>h. \<lparr>index_left = i, left_row = c, right_match = Some h\<rparr>) hits))
       (enumerate 0 left_df))"

text \<open>The output rows of the join for one left row, as in \<open>sjoin_left\<close>.\<close>

definition rows_for ::
  "(point \<Rightarrow> polygon \<Rightarrow> bool) \<Rightarrow> tract list \<Rightarrow> nat \<times> complaint \<Rightarrow> joined_row list" where
  "rows_for pred right_df = (\<lambda>(i, c).
       (let hits = filter (\<lambda>(j, t). pred (points_from_xy c) (geometry t))
                     (enumerate 0 right_df)
        in if hits = [] then [\<lparr>index_left = i, left_row = c, right_match = None\<rparr>]
           else map (\<lambda>h. \<lparr>index_left = i, left_row = c, right_match = Some h\<rparr>) hits))"

text \<open>
  The percentage of line 282 is a quotient of two Python integers, which raises
  \<^verbatim>\<open>ZeroDivisionError\<close> for an empty complaints table; the first line has been printed
  by then.
\<close>

definition spatial_join_with_census ::
  "(point \<Rightarrow> polygon \<Rightarrow> bool) \<Rightarrow> complaint list \<Rightarrow> tract list \<Rightarrow> world
     \<Rightarrow> (py_error + joined_row list) \<times> world" where
  "spatial_join_with_census pred complaints_df census_gdf w =
     (let w1 = print (Text ''Performing spatial join with census tracts...'') w;
          joined_gdf = sjoin_left pred complaints_df census_gdf;
          unmatched = filter (\<lambda>r. joined_GEOID r = None) joined_gdf
      in if length complaints_df = 0 then (Inl ZeroDivisionError, w1)
         else
           (let w2 = print (Unmatched_report (length unmatched)
                        (real (length unmatched) / real (length complaints_df) * 100)) w1;
                joined_gdf' = filter (\<lambda>r. joined_GEOID r \<noteq> None) joined_gdf;
                w3 = write_file ''../data/processed/flood_complaints_with_census_2019.csv''
                       (Joined_csv joined_gdf') w2
            in (Inr joined_gdf', w3)))"

text \<open>
  The last two steps of the module's script part (lines 331-335): the join, then the
  aggregation on the same census table.
\<close>

definition join_and_aggregate ::
  "(point \<Rightarrow> polygon \<Rightarrow> bool) \<Rightarrow> complaint list \<Rightarrow> tract list \<Rightarrow> world
     \<Rightarrow> (py_error + aggregated list) \<times> world" where
  "join_and_aggregate pred flood_complaints_df census_gdf w =
     (case spatial_join_with_census pred flood_complaints_df census_gdf w of
        (Inl e, w1) \<Rightarrow> (Inl e, w1)
      | (Inr joined_df, w1) \<Rightarrow>
          (let (aggregated_gdf, w2) = aggregate_by_census_tract joined_df census_gdf w1
           in (Inr aggregated_gdf, w2)))"

text \<open>The census rows whose geometry a complaint's point is within.\<close>

definition containing :: "(point \<Rightarrow> polygon \<Rightarrow> bool) \<Rightarrow> tract list \<Rightarrow> complaint \<Rightarrow> tract list" where
  "containing pred census_gdf c = filter (\<lambda>t. pred (points_from_xy c) (geometry t)) census_gdf"

text \<open>The rows of the joined table that belong to the complaint with index \<open>i\<close>.\<close>

definition assignments :: "joined_row list \<Rightarrow> nat \<Rightarrow> joined_row list" where
  "assignments joined_df i = filter (\<lambda>r. index_left r = i) joined_df"

text \<open>
  The conservation law on one run of the join followed by the aggregation: the counts of
  all output rows and the number of unmatched complaints that the join reports add up to
  the number of complaints. A run that raises does not satisfy it.
\<close>

definition conservation ::
  "(point \<Rightarrow> polygon \<Rightarrow> bool) \<Rightarrow> complaint list \<Rightarrow> tract list \<Rightarrow> world \<Rightarrow> bool" where
  "conservation pred complaints_df census_gdf w =
     (case spatial_join_with_census pred complaints_df census_gdf w of
        (Inl e, w1) \<Rightarrow> False
      | (Inr joined_df, w1) \<Rightarrow>
          (case last (stdout w1) of
             Text s \<Rightarrow> False
           | Unmatched_report unmatched_count pct \<Rightarrow>
               sum_list (map complaint_count
                 (fst (aggregate_by_census_tract joined_df census_gdf w1)))
               + unmatched_count = length complaints_df))"


text \<open>\<^verbatim>\<open>isna\<close> on a float64 cell: only \<open>nan\<close> is a missing value.\<close>

definition isna :: "float64 \<Rightarrow> bool" where
  "isna x = (x = NaN)"

subsection \<open>The geometry library's containment predicate\<close>

definition ring_edges :: "polygon \<Rightarrow> (point \<times> point) list" where
  "ring_edges ps = (if ps = [] then [] else zip ps (tl ps @ [hd ps]))"

definition on_segment :: "point \<Rightarrow> point \<times> point \<Rightarrow> bool" where
  "on_segment p e =
     (case (p, e) of ((px, py), ((ax, ay), (bx, by))) \<Rightarrow>
        (bx - ax) * (py - ay) = (by - ay) * (px - ax)
        \<and> min ax bx \<le> px \<and> px \<le> max ax bx \<and> min ay by \<le> py \<and> py \<le> max ay by)"

definition ray_crosses :: "point \<Rightarrow> point \<times> point \<Rightarrow> bool" where
  "ray_crosses p e =
     (case (p, e) of ((px, py), ((ax, ay), (bx, by))) \<Rightarrow>
        (py < ay) \<noteq> (py < by) \<and> px < (bx - ax) * (py - ay) / (by - ay) + ax)"

text \<open>
  Modelled from the spec: the point-in-polygon predicate of the geometry library
  (\<^verbatim>\<open>predicate="within"\<close> of the spatial join), which is not part of the repository.
  Containment is strict: a point on the ring is not within the polygon, and a point off the
  ring is within it when a ray from the point crosses the ring an odd number of times.
\<close>

definition shapely_within :: "point \<Rightarrow> polygon \<Rightarrow> bool" where
  "shapely_within p ps =
     (\<not> list_ex (on_segment p) (ring_edges ps)
      \<and> odd (length (filter (ray_crosses p) (ring_edges ps))))"

text \<open>
  Modelled from the spec: a degenerate boundary is one of zero area or one that intersects
  itself. The area is the shoelace sum over the ring, and a ring intersects itself when two
  of its edges cross in a point interior to both.
\<close>

definition signed_area2 :: "polygon \<Rightarrow> real" where
  "signed_area2 ps = sum_list (map (\<lambda>((ax, ay), (bx, by)). ax * by - bx * ay) (ring_edges ps))"

definition orient :: "point \<Rightarrow> point \<Rightarrow> point \<Rightarrow> real" where
  "orient a b c = (fst b - fst a) * (snd c - snd a) - (snd b - snd a) * (fst c - fst a)"

definition segments_cross :: "point \<times> point \<Rightarrow> point \<times> point \<Rightarrow> bool" where
  "segments_cross e f =
     (orient (fst e) (snd e) (fst f) * orient (fst e) (snd e) (snd f) < 0
      \<and> orient (fst f) (snd f) (fst e) * orient (fst f) (snd f) (snd e) < 0)"

definition self_intersecting :: "polygon \<Rightarrow> bool" where
  "self_intersecting ps =
     list_ex (\<lambda>e. list_ex (segments_cross e) (ring_edges ps)) (ring_edges ps)"

definition degenerate :: "polygon \<Rightarrow> bool" where
  "degenerate ps = (signed_area2 ps = 0 \<or> self_intersecting ps)"

subsection \<open>\<^verbatim>\<open>create_sample_311_data\<close> and \<^verbatim>\<open>download_and_prepare_data\<close> (lines 25-224)\<close>

text \<open>
  A value of the dictionary handed to the data-frame constructor: a scalar, or a list-like
  (a list or a range) with its number of entries. The entries themselves are random draws
  and play no part in the constructor's check of the lengths.
\<close>

datatype column = Scalar | Listlike nat

text \<open>A data frame as far as the constructor decides it: the column names and the number of rows.\<close>

record frame =
  columns :: "string list"
  n_rows :: nat

definition listlike_length :: "string \<times> column \<Rightarrow> nat option" where
  "listlike_length kv = (case snd kv of Scalar \<Rightarrow> None | Listlike n \<Rightarrow> Some n)"

text \<open>
  \<^verbatim>\<open>pd.DataFrame({...})\<close>: scalars are broadcast, all list-likes must have one length, and
  a dictionary of scalars only needs an index.
\<close>

definition DataFrame :: "(string \<times> column) list \<Rightarrow> py_error + frame" where
  "DataFrame d =
     (let lengths = List.map_filter listlike_length d
      in if lengths = [] then Inl (ValueError ''If using all scalar values, you must pass an index'')
         else if list_all (\<lambda>n. n = hd lengths) lengths
           then Inr \<lparr>columns = map fst d, n_rows = hd lengths\<rparr>
         else Inl (ValueError ''All arrays must be of the same length''))"

definition n_complaints :: nat where
  "n_complaints = 100000"

text \<open>
  Lines 128-145. Every list is built by one pass over \<^verbatim>\<open>range(n_complaints)\<close> or over
  \<^verbatim>\<open>random_dates\<close>, except the three-element literal of \<^verbatim>\<open>'Location Type'\<close>.
\<close>

definition create_sample_311_data :: "py_error + frame" where
  "create_sample_311_data =
     (let random_dates = n_complaints;
          complaint_types = n_complaints;
          random_statuses = n_complaints;
          random_lats = n_complaints;
          random_lons = n_complaints;
          random_addresses = n_complaints;
          zip_codes = n_complaints
      in DataFrame
        [(''Unique Key'', Listlike (length [1..<n_complaints + 1])),
         (''Created Date'', Listlike random_dates),
         (''Closed Date'', Listlike random_dates),
         (''Agency'', Scalar),
         (''Complaint Type'', Listlike complaint_types),
         (''Descriptor'', Listlike (1 * n_complaints)),
         (''Location Type'', Listlike (length [''Street'', ''Residential Building'',
            ''Commercial Building''])),
         (''Incident Zip'', Listlike zip_codes),
         (''Incident Address'', Listlike random_addresses),
         (''Status'', Listlike random_statuses),
         (''Borough'', Listlike n_complaints),
         (''Latitude'', Listlike random_lats),
         (''Longitude'', Listlike random_lons)])"

definition n_tracts :: nat where
  "n_tracts = 300"

text \<open>Lines 208-224: twelve lists of \<^verbatim>\<open>n_tracts\<close> entries each.\<close>

definition create_sample_census_data :: "py_error + frame" where
  "create_sample_census_data =
     DataFrame
       [(''GEOID'', Listlike n_tracts), (''TRACTCE'', Listlike n_tracts),
        (''COUNTYFP'', Listlike n_tracts), (''NAME'', Listlike n_tracts),
        (''Borough'', Listlike n_tracts), (''median_income'', Listlike n_tracts),
        (''population'', Listlike n_tracts), (''pct_college'', Listlike n_tracts),
        (''pct_poverty'', Listlike n_tracts), (''pct_owner_occupied'', Listlike n_tracts),
        (''pct_minority'', Listlike n_tracts), (''geometry'', Listlike n_tracts)]"

text \<open>
  The two cached files of the raw-data directory: \<^verbatim>\<open>nyc_311_2019.csv\<close> and
  \<^verbatim>\<open>nyc_census_tracts.geojson\<close>, \<open>None\<close> when the file does not exist.
\<close>

record raw_dir =
  nyc_311_2019_csv :: "frame option"
  nyc_census_tracts_geojson :: "frame option"

text \<open>
  Lines 25-65 without the printing: a cached file is read, a missing one is created from
  the sample generator and written.
\<close>

definition download_and_prepare_data :: "raw_dir \<Rightarrow> (py_error + frame \<times> frame) \<times> raw_dir" where
  "download_and_prepare_data fs =
     (case (case nyc_311_2019_csv fs of
              Some df \<Rightarrow> Inr (df, fs)
            | None \<Rightarrow>
                (case create_sample_311_data of
                   Inl e \<Rightarrow> Inl e
                 | Inr df \<Rightarrow> Inr (df, fs\<lparr>nyc_311_2019_csv := Some df\<rparr>))) of
        Inl e \<Rightarrow> (Inl e, fs)
      | Inr (complaints_df, fs1) \<Rightarrow>
          (case (case nyc_census_tracts_geojson fs1 of
                   Some gdf \<Rightarrow> Inr (gdf, fs1)
                 | None \<Rightarrow>
                     (case create_sample_census_data of
                        Inl e \<Rightarrow> Inl e
                      | Inr gdf \<Rightarrow> Inr (gdf, fs1\<lparr>nyc_census_tracts_geojson := Some gdf\<rparr>))) of
             Inl e \<Rightarrow> (Inl e, fs1)
           | Inr (census_gdf, fs2) \<Rightarrow> (Inr (complaints_df, census_gdf), fs2)))"

subsection \<open>\<^verbatim>\<open>run_analysis.main\<close> (lines 62-120)\<close>

text \<open>The parsed command line (\<^verbatim>\<open>parse_arguments\<close>, lines 41-60).\<close>

record args =
  year :: int
  sample :: bool
  sample_size :: int
  skip_processing :: bool
  skip_visualization :: bool
  skip_analysis :: bool
  resolution :: int

text \<open>What a run of \<^verbatim>\<open>main\<close> leaves behind: the log records and the calls into the modules.\<close>

datatype trace_item =
    Info string
  | Info_arguments args
  | Error string py_error
  | Call string

text \<open>The names bound at the top level of the three imported modules.\<close>

definition data_processing_names :: "string list" where
  "data_processing_names =
     [''pd'', ''np'', ''gpd'', ''os'', ''Point'', ''Polygon'', ''random'',
      ''DATA_DIR'', ''RAW_DATA_DIR'', ''PROCESSED_DATA_DIR'',
      ''ensure_dirs'', ''download_and_prepare_data'', ''create_sample_311_data'',
      ''create_sample_census_data'', ''filter_flood_complaints'',
      ''spatial_join_with_census'', ''aggregate_by_census_tract'']"

definition visualization_names :: "string list" where
  "visualization_names =
     [''pd'', ''np'', ''gpd'', ''plt'', ''sns'', ''os'', ''LinearSegmentedColormap'', ''Rectangle'',
      ''DATA_DIR'', ''FIGURES_DIR'',
      ''ensure_dirs'', ''create_choropleth_map'', ''create_simplified_pixel_map'',
      ''create_heatmap'', ''create_time_series'', ''create_monthly_pattern'',
      ''create_weekly_pattern'', ''create_complaint_type_distribution'', ''visualize_data'']"

definition socioeconomic_analysis_names :: "string list" where
  "socioeconomic_analysis_names =
     [''pd'', ''np'', ''gpd'', ''plt'', ''sns'', ''os'', ''StandardScaler'', ''LinearRegression'',
      ''RandomForestRegressor'', ''sm'', ''smf'',
      ''DATA_DIR'', ''FIGURES_DIR'', ''RESULTS_DIR'',
      ''ensure_dirs'', ''load_data'', ''calculate_descriptive_statistics'',
      ''calculate_correlations'', ''run_regression_models'', ''analyze_spatial_patterns'',
      ''run_analysis'', ''generate_summary_report'']"

text \<open>Attribute access on a module: a name that is not bound raises \<^verbatim>\<open>AttributeError\<close>.\<close>

definition getattr_module :: "string list \<Rightarrow> string \<Rightarrow> py_error + string" where
  "getattr_module names name = (if name \<in> set names then Inr name else Inl (AttributeError name))"

text \<open>
  The body of a \<^verbatim>\<open>try\<close> block that calls module functions one after the other: each
  name is looked up and the function called; the first exception ends the block. What a
  called function does is the parameter \<open>call\<close>: \<open>None\<close> when it returns, the exception
  when it raises.
\<close>

fun try_calls ::
  "(string \<Rightarrow> py_error option) \<Rightarrow> (string list \<times> string \<times> string) list
     \<Rightarrow> trace_item list \<times> py_error option" where
  "try_calls call [] = ([], None)"
| "try_calls call ((names, m, f) # rest) =
     (case getattr_module names f of
        Inl e \<Rightarrow> ([], Some e)
      | Inr g \<Rightarrow>
          (case call (m @ ''.'' @ g) of
             Some e \<Rightarrow> ([Call (m @ ''.'' @ g)], Some e)
           | None \<Rightarrow>
               (case try_calls call rest of (t, r) \<Rightarrow> (Call (m @ ''.'' @ g) # t, r))))"

text \<open>A step that logs the exception and goes on (lines 103-118).\<close>

definition logged_step ::
  "(string \<Rightarrow> py_error option) \<Rightarrow> string \<Rightarrow> (string list \<times> string \<times> string) \<Rightarrow> string \<Rightarrow> string
     \<Rightarrow> trace_item list" where
  "logged_step call start target done failed =
     (case try_calls call [target] of
        (t, None) \<Rightarrow> Info start # t @ [Info done]
      | (t, Some e) \<Rightarrow> Info start # t @ [Error failed e])"

definition main :: "(string \<Rightarrow> py_error option) \<Rightarrow> args \<Rightarrow> trace_item list" where
  "main call a =
     (let t0 = [Info ''Starting NYC flood-related 311 complaints analysis'', Info_arguments a];
          step1 =
            (if \<not> skip_processing a then
               (case try_calls call
                       [(data_processing_names, ''data_processing'', ''process_data'')] of
                  (t, None) \<Rightarrow>
                    (Info ''Step 1: Processing data'' # t
                       @ [Info ''Data processing completed successfully''], None)
                | (t, Some e) \<Rightarrow>
                    (Info ''Step 1: Processing data'' # t
                       @ [Error ''Error in data processing'' e], Some e))
             else
               (case try_calls call
                       [(data_processing_names, ''data_processing'', ''download_nyc_311_data''),
                        (data_processing_names, ''data_processing'', ''download_census_tracts''),
                        (socioeconomic_analysis_names, ''socioeconomic_analysis'', ''load_data'')] of
                  (t, None) \<Rightarrow>
                    (Info ''Skipping data processing, loading processed data'' # t
                       @ [Info ''Processed data loaded successfully''], None)
                | (t, Some e) \<Rightarrow>
                    (Info ''Skipping data processing, loading processed data'' # t
                       @ [Error ''Error loading processed data'' e], Some e)))
      in case step1 of
           (t1, Some e) \<Rightarrow> t0 @ t1
         | (t1, None) \<Rightarrow>
             t0 @ t1
             @ (if \<not> skip_visualization a then
                  logged_step call ''Step 2: Creating visualizations''
                    (visualization_names, ''visualization'', ''visualize_data'')
                    ''Visualizations created successfully'' ''Error in visualization''
                else [])
             @ (if \<not> skip_analysis a then
                  logged_step call ''Step 3: Running socioeconomic analysis''
                    (socioeconomic_analysis_names, ''socioeconomic_analysis'', ''run_analysis'')
                    ''Socioeconomic analysis completed successfully''
                    ''Error in socioeconomic analysis''
                else [])
             @ [Info ''Analysis pipeline completed''])"

definition is_call :: "trace_item \<Rightarrow> bool" where
  "is_call x = (case x of Call f \<Rightarrow> True | _ \<Rightarrow> False)"

subsection \<open>Concrete tables\<close>

definition w0 :: world where
  "w0 = \<lparr>stdout = [], files = [], random_state = 0\<rparr>"

definition event_at :: "int \<Rightarrow> real \<Rightarrow> real \<Rightarrow> complaint" where
  "event_at k x y =
     \<lparr>Unique_Key = k, Complaint_Type = ''Street Flooding'', Latitude = y, Longitude = x\<rparr>"

text \<open>The square of \<^verbatim>\<open>create_sample_census_data\<close> (lines 175-181) around a centre.\<close>

definition square_around :: "real \<Rightarrow> real \<Rightarrow> real \<Rightarrow> polygon" where
  "square_around center_lon center_lat sz =
     [(center_lon - sz, center_lat - sz), (center_lon + sz, center_lat - sz),
      (center_lon + sz, center_lat + sz), (center_lon - sz, center_lat + sz),
      (center_lon - sz, center_lat - sz)]"

definition unit_square :: polygon where
  "unit_square = [(0, 0), (1, 0), (1, 1), (0, 1), (0, 0)]"

definition tract_of :: "string \<Rightarrow> int \<Rightarrow> polygon \<Rightarrow> tract" where
  "tract_of g pop poly =
     \<lparr>GEOID = g, NAME = ''Census Tract 1'', median_income = 50000, population = pop,
      pct_college = 1 / 2, pct_poverty = 1 / 10, pct_owner_occupied = 1 / 2,
      pct_minority = 1 / 2, geometry = poly\<rparr>"

text \<open>One tract on the unit square, two complaints inside it and one outside.\<close>

definition scenario_events :: "complaint list" where
  "scenario_events = [event_at 1 (1 / 5) (1 / 5), event_at 2 (1 / 2) (1 / 2), event_at 3 2 2]"

definition scenario_tracts :: "tract list" where
  "scenario_tracts = [tract_of ''36061000001'' 2000 unit_square]"

text \<open>Two tracts with different ids whose squares overlap, and one complaint in both.\<close>

definition overlap_events :: "complaint list" where
  "overlap_events = [event_at 1 (1 / 2) (1 / 2)]"

definition overlap_tracts :: "tract list" where
  "overlap_tracts =
     [tract_of ''36061000001'' 2000 unit_square,
      tract_of ''36061000002'' 3000 (square_around 1 1 (3 / 4))]"

text \<open>A tract without inhabitants on the unit square.\<close>

definition zero_population_tracts :: "tract list" where
  "zero_population_tracts = [tract_of ''36061000001'' 0 unit_square]"

text \<open>
  Two tracts with the same population, the second far from every complaint, and the
  joined table that the join returns for them on \<open>scenario_events\<close>.
\<close>

definition pair_tracts :: "tract list" where
  "pair_tracts =
     [tract_of ''36061000001'' 2000 unit_square,
      tract_of ''36061000002'' 2000 (square_around 5 5 1)]"

definition pair_joined :: "joined_row list" where
  "pair_joined =
     [\<lparr>index_left = 0, left_row = event_at 1 (1 / 5) (1 / 5),
       right_match = Some (0, tract_of ''36061000001'' 2000 unit_square)\<rparr>,
      \<lparr>index_left = 1, left_row = event_at 2 (1 / 2) (1 / 2),
       right_match = Some (0, tract_of ''36061000001'' 2000 unit_square)\<rparr>]"

text \<open>A tract whose ring crosses itself (a bow tie), and a complaint in its left lobe.\<close>

definition bowtie :: polygon where
  "bowtie = [(0, 0), (1, 1), (1, 0), (0, 1)]"

definition bowtie_tracts :: "tract list" where
  "bowtie_tracts = [tract_of ''36061000001'' 2000 bowtie]"

definition bowtie_events :: "complaint list" where
  "bowtie_events = [event_at 1 (1 / 4) (1 / 2)]"

text \<open>A raw-data directory that holds a cached complaints file of two rows.\<close>

definition cached_dir :: raw_dir where
  "cached_dir =
     \<lparr>nyc_311_2019_csv = Some \<lparr>columns = [''Unique Key'', ''Complaint Type''], n_rows = 2\<rparr>,
      nyc_census_tracts_geojson = None\<rparr>"

section \<open>Properties of the join\<close>

lemma filter_enumerate_snd:
  "map snd (filter (\<lambda>(j, t). P t) (enumerate n xs)) = filter P xs"
  by (induction xs arbitrary: n) simp_all

lemma sjoin_left_rows_for:
  "sjoin_left pred left_df right_df = concat (map (rows_for pred right_df) (enumerate 0 left_df))"
  by (simp add: sjoin_left_def rows_for_def)

lemma rows_for_index: "r \<in> set (rows_for pred right_df (i, c)) \<Longrightarrow> index_left r = i"
  by (auto simp: rows_for_def Let_def split: if_splits)

lemma rows_for_keys:
  "List.map_filter joined_GEOID (rows_for pred right_df (i, c)) =
     map GEOID (containing pred right_df c)"
proof -
  let ?hits = "filter (\<lambda>(j, t). pred (points_from_xy c) (geometry t)) (enumerate 0 right_df)"
  have snd_hits: "map snd ?hits = containing pred right_df c"
    unfolding containing_def by (rule filter_enumerate_snd)
  have "List.map_filter joined_GEOID
          (map (\<lambda>h. \<lparr>index_left = i, left_row = c, right_match = Some h\<rparr>) ?hits)
        = map GEOID (map snd ?hits)"
    by (simp add: map_filter_def joined_GEOID_def comp_def case_prod_beta)
  moreover have "?hits = [] \<Longrightarrow> containing pred right_df c = []"
    using snd_hits by simp
  ultimately show ?thesis
    using snd_hits
    by (simp add: rows_for_def Let_def map_filter_def joined_GEOID_def)
qed


lemma rows_for_unmatched_length:
  "length (filter (\<lambda>r. joined_GEOID r = None) (rows_for pred right_df (i, c))) =
     (if containing pred right_df c = [] then 1 else 0)"
proof -
  let ?hits = "filter (\<lambda>(j, t). pred (points_from_xy c) (geometry t)) (enumerate 0 right_df)"
  have "map snd ?hits = containing pred right_df c"
    unfolding containing_def by (rule filter_enumerate_snd)
  then have "?hits = [] \<longleftrightarrow> containing pred right_df c = []"
    by (metis map_is_Nil_conv)
  then show ?thesis
    by (simp add: rows_for_def Let_def joined_GEOID_def comp_def)
qed

lemma sjoin_left_keys_gen:
  "List.map_filter joined_GEOID
     (filter (\<lambda>r. joined_GEOID r \<noteq> None)
        (concat (map (rows_for pred right_df) (enumerate n left_df)))) =
   concat (map (\<lambda>c. map GEOID (containing pred right_df c)) left_df)"
proof (induction left_df arbitrary: n)
  case Nil
  show ?case by (simp add: map_filter_def)
next
  case (Cons c cs)
  have drop_filter: "List.map_filter joined_GEOID (filter (\<lambda>r. joined_GEOID r \<noteq> None) rs) =
      List.map_filter joined_GEOID rs" for rs
    by (simp add: map_filter_def)
  have app: "List.map_filter joined_GEOID (xs @ ys) =
      List.map_filter joined_GEOID xs @ List.map_filter joined_GEOID ys" for xs ys
    by (simp add: map_filter_def)
  show ?case
    using Cons.IH [of "Suc n"]
    by (simp add: drop_filter app rows_for_keys del: not_None_eq)
qed

lemma sjoin_left_keys:
  "List.map_filter joined_GEOID
     (filter (\<lambda>r. joined_GEOID r \<noteq> None) (sjoin_left pred left_df right_df)) =
   concat (map (\<lambda>c. map GEOID (containing pred right_df c)) left_df)"
  unfolding sjoin_left_rows_for by (rule sjoin_left_keys_gen)

lemma sjoin_left_unmatched_gen:
  "length (filter (\<lambda>r. joined_GEOID r = None)
     (concat (map (rows_for pred right_df) (enumerate n left_df)))) =
   length (filter (\<lambda>c. containing pred right_df c = []) left_df)"
  by (induction left_df arbitrary: n) (simp_all add: rows_for_unmatched_length)

lemma sjoin_left_unmatched:
  "length (filter (\<lambda>r. joined_GEOID r = None) (sjoin_left pred left_df right_df)) =
   length (filter (\<lambda>c. containing pred right_df c = []) left_df)"
  unfolding sjoin_left_rows_for by (rule sjoin_left_unmatched_gen)

lemma assignments_gen:
  "filter (\<lambda>r. index_left r = i)
     (concat (map (rows_for pred right_df) (enumerate n left_df))) =
   (if n \<le> i \<and> i < n + length left_df then rows_for pred right_df (i, left_df ! (i - n))
    else [])"
proof (induction left_df arbitrary: n)
  case Nil
  show ?case by auto
next
  case (Cons c cs)
  have here: "filter (\<lambda>r. index_left r = i) (rows_for pred right_df (n, c)) =
      (if i = n then rows_for pred right_df (n, c) else [])"
    using rows_for_index [of _ pred right_df n c]
    by (auto simp: filter_empty_conv filter_id_conv)
  show ?case
  proof (cases "i = n")
    case True
    then show ?thesis using Cons.IH [of "Suc n"] here by simp
  next
    case False
    then show ?thesis using Cons.IH [of "Suc n"] here
      by (auto simp: nth_Cons' Suc_diff_le)
  qed
qed

lemma sjoin_left_assignments:
  "i < length left_df \<Longrightarrow>
     assignments (sjoin_left pred left_df right_df) i = rows_for pred right_df (i, left_df ! i)"
  unfolding sjoin_left_rows_for assignments_def assignments_gen by simp

lemma spatial_join_result:
  "complaints_df \<noteq> [] \<Longrightarrow>
     fst (spatial_join_with_census pred complaints_df census_gdf w) =
       Inr (filter (\<lambda>r. joined_GEOID r \<noteq> None) (sjoin_left pred complaints_df census_gdf))"
  by (simp add: spatial_join_with_census_def Let_def)

lemma spatial_join_stdout:
  "complaints_df \<noteq> [] \<Longrightarrow>
     stdout (snd (spatial_join_with_census pred complaints_df census_gdf w)) =
       stdout w @ [Text ''Performing spatial join with census tracts...'',
         Unmatched_report
           (length (filter (\<lambda>r. joined_GEOID r = None) (sjoin_left pred complaints_df census_gdf)))
           (real (length (filter (\<lambda>r. joined_GEOID r = None)
              (sjoin_left pred complaints_df census_gdf))) / real (length complaints_df) * 100)]"
  by (simp add: spatial_join_with_census_def Let_def print_def write_file_def)

lemma spatial_join_empty:
  "fst (spatial_join_with_census pred [] census_gdf w) = Inl ZeroDivisionError"
  by (simp add: spatial_join_with_census_def Let_def)

section \<open>Properties of the aggregation\<close>

lemma groupby_size_keys_distinct: "distinct (map fst (groupby_size joined_df))"
  by (simp add: groupby_size_def Let_def comp_def)

lemma groupby_size_hits:
  "filter (\<lambda>(g, n). g = k) (groupby_size joined_df) =
     (if k \<in> set (List.map_filter joined_GEOID joined_df)
      then [(k, count_list (List.map_filter joined_GEOID joined_df) k)] else [])"
proof -
  define keys where "keys = List.map_filter joined_GEOID joined_df"
  define ks where "ks = sort (remdups keys)"
  have d: "distinct ks" and s: "set ks = set keys"
    by (simp_all add: ks_def)
  have gen: "distinct xs \<Longrightarrow>
      filter (\<lambda>(g, n). g = k) (map (\<lambda>g. (g, count_list keys g)) xs) =
        (if k \<in> set xs then [(k, count_list keys k)] else [])" for xs
    by (induction xs) auto
  show ?thesis
    using gen [OF d] s by (simp add: groupby_size_def Let_def keys_def ks_def)
qed

lemma merge_left_groupby:
  "merge_left census_gdf (groupby_size joined_df) =
     map (\<lambda>t. (t, if GEOID t \<in> set (List.map_filter joined_GEOID joined_df)
                  then Some (count_list (List.map_filter joined_GEOID joined_df) (GEOID t))
                  else None)) census_gdf"
  unfolding merge_left_def groupby_size_hits
  by (induction census_gdf) (simp_all add: Let_def)

lemma aggregate_rows_eq:
  "aggregate_rows joined_df census_gdf =
     map (\<lambda>t. \<lparr>region = t,
               complaint_count = count_list (List.map_filter joined_GEOID joined_df) (GEOID t),
               complaint_rate =
                 rate_per_1000 (count_list (List.map_filter joined_GEOID joined_df) (GEOID t))
                   (population t)\<rparr>) census_gdf"
  unfolding aggregate_rows_def merge_left_groupby
  by (simp add: comp_def fillna0_def)

lemma aggregate_rows_rate:
  "a \<in> set (aggregate_rows joined_df census_gdf) \<Longrightarrow>
     complaint_rate a = rate_per_1000 (complaint_count a) (population (region a))"
  unfolding aggregate_rows_eq by auto

lemma rate_per_1000_pos:
  "0 < pop \<Longrightarrow> rate_per_1000 cnt pop = Finite (real cnt / real_of_int pop * 1000)"
  by (simp add: rate_per_1000_def true_divide_def)

text \<open>
  Claim C10. For a fixed population greater than zero the rate computed by
  \<open>aggregate_by_census_tract\<close> is non-decreasing in the count: of two output rows with
  the same positive population, the one with the greater or equal count has a finite rate
  that is greater or equal.
\<close>

theorem complaint_rate_monotone:
  assumes "a \<in> set (fst (aggregate_by_census_tract joined_df census_gdf w))"
    and "b \<in> set (fst (aggregate_by_census_tract joined_df census_gdf w))"
    and "population (region a) = population (region b)"
    and "0 < population (region a)"
    and "complaint_count a \<le> complaint_count b"
  shows "\<exists>x y. complaint_rate a = Finite x \<and> complaint_rate b = Finite y \<and> x \<le> y"
proof -
  let ?p = "population (region a)"
  have a: "complaint_rate a = Finite (real (complaint_count a) / real_of_int ?p * 1000)"
    using assms(1,4) aggregate_rows_rate [of a joined_df census_gdf]
    by (simp add: aggregate_by_census_tract_def Let_def rate_per_1000_pos)
  have b: "complaint_rate b = Finite (real (complaint_count b) / real_of_int ?p * 1000)"
    using assms(2,3,4) aggregate_rows_rate [of b joined_df census_gdf]
    by (simp add: aggregate_by_census_tract_def Let_def rate_per_1000_pos)
  have "real (complaint_count a) / real_of_int ?p \<le> real (complaint_count b) / real_of_int ?p"
    using assms(4,5) by (simp add: divide_right_mono)
  then have "real (complaint_count a) / real_of_int ?p * 1000
      \<le> real (complaint_count b) / real_of_int ?p * 1000"
    by (rule mult_right_mono) simp
  with a b show ?thesis by blast
qed

theorem complaint_rate_monotone_witness:
  "\<exists>x y. complaint_rate (fst (aggregate_by_census_tract pair_joined pair_tracts w0) ! 1) = Finite x
     \<and> complaint_rate (fst (aggregate_by_census_tract pair_joined pair_tracts w0) ! 0) = Finite y
     \<and> x \<le> y"
proof (rule complaint_rate_monotone [of _ pair_joined pair_tracts w0])
  let ?out = "fst (aggregate_by_census_tract pair_joined pair_tracts w0)"
  have len: "length ?out = 2"
    by code_simp
  show "?out ! 1 \<in> set ?out"
    using len by simp
  show "?out ! 0 \<in> set ?out"
    using len by simp
  show "population (region (?out ! 1)) = population (region (?out ! 0))"
    by code_simp
  show "0 < population (region (?out ! 1))"
    by code_simp
  show "complaint_count (?out ! 1) \<le> complaint_count (?out ! 0)"
    by code_simp
qed

section \<open>Conservation of complaints\<close>

lemma sum_counts_distinct_keys:
  assumes "distinct ks" and "set keys \<subseteq> set ks"
  shows "sum_list (map (count_list keys) ks) = length keys"
proof -
  have "sum_list (map (count_list keys) ks) = sum (count_list keys) (set ks)"
    using assms(1) by (rule sum_list_distinct_conv_sum_set)
  also have "\<dots> = length keys"
    using assms(2) by (simp add: sum_count_set)
  finally show ?thesis .
qed

lemma aggregate_counts_sum:
  assumes "distinct (map GEOID census_gdf)"
    and "set (List.map_filter joined_GEOID joined_df) \<subseteq> set (map GEOID census_gdf)"
  shows "sum_list (map complaint_count (aggregate_rows joined_df census_gdf)) =
    length (List.map_filter joined_GEOID joined_df)"
proof -
  have "map complaint_count (aggregate_rows joined_df census_gdf) =
      map (count_list (List.map_filter joined_GEOID joined_df)) (map GEOID census_gdf)"
    by (simp add: aggregate_rows_eq comp_def)
  then show ?thesis
    using sum_counts_distinct_keys [OF assms] by simp
qed

lemma containing_count_partition:
  assumes "list_all (\<lambda>c. length (containing pred census_gdf c) \<le> 1) complaints_df"
  shows "length (concat (map (\<lambda>c. map GEOID (containing pred census_gdf c)) complaints_df))
      + length (filter (\<lambda>c. containing pred census_gdf c = []) complaints_df)
    = length complaints_df"
  using assms
proof (induction complaints_df)
  case Nil
  show ?case by simp
next
  case (Cons c cs)
  have tail: "list_all (\<lambda>c. length (containing pred census_gdf c) \<le> 1) cs"
    using Cons.prems by simp
  have "containing pred census_gdf c = [] \<or> length (containing pred census_gdf c) = 1"
    using Cons.prems by (cases "containing pred census_gdf c") auto
  then show ?case
    using Cons.IH [OF tail] by auto
qed

text \<open>
  Claim C1, amended. When the complaints table is not empty, the tract ids are pairwise
  different and every complaint's point is within at most one tract's polygon, the counts
  of all output rows of the aggregation plus the number of unmatched complaints reported
  by the join equal the number of complaints.
\<close>

theorem conservation_without_overlap:
  assumes ne: "complaints_df \<noteq> []"
    and ids: "distinct (map GEOID census_gdf)"
    and one: "list_all (\<lambda>c. length (containing pred census_gdf c) \<le> 1) complaints_df"
  shows "conservation pred complaints_df census_gdf w"
proof -
  let ?all = "sjoin_left pred complaints_df census_gdf"
  let ?joined = "filter (\<lambda>r. joined_GEOID r \<noteq> None) ?all"
  let ?u = "length (filter (\<lambda>r. joined_GEOID r = None) ?all)"
  let ?keys = "List.map_filter joined_GEOID ?joined"
  obtain res w1 where run: "spatial_join_with_census pred complaints_df census_gdf w = (res, w1)"
    by (cases "spatial_join_with_census pred complaints_df census_gdf w")
  have res: "res = Inr ?joined"
    using spatial_join_result [OF ne, of pred census_gdf w] run by simp
  have out: "last (stdout w1) =
      Unmatched_report ?u (real ?u / real (length complaints_df) * 100)"
    using spatial_join_stdout [OF ne, of pred census_gdf w] run by simp
  have keys: "?keys = concat (map (\<lambda>c. map GEOID (containing pred census_gdf c)) complaints_df)"
    by (rule sjoin_left_keys)
  have "set ?keys \<subseteq> set (map GEOID census_gdf)"
    unfolding keys by (auto simp: containing_def)
  then have total: "sum_list (map complaint_count (aggregate_rows ?joined census_gdf)) =
      length ?keys"
    using ids by (rule aggregate_counts_sum [rotated])
  have "length ?keys + ?u = length complaints_df"
    unfolding keys sjoin_left_unmatched by (rule containing_count_partition [OF one])
  with total have "sum_list (map complaint_count (aggregate_rows ?joined census_gdf)) + ?u =
      length complaints_df"
    by simp
  then show ?thesis
    unfolding conservation_def run res
    by (simp add: out aggregate_by_census_tract_def Let_def)
qed

theorem conservation_without_overlap_witness:
  "scenario_events \<noteq> [] \<and> distinct (map GEOID scenario_tracts)
   \<and> list_all (\<lambda>c. length (containing shapely_within scenario_tracts c) \<le> 1) scenario_events
   \<and> conservation shapely_within scenario_events scenario_tracts w0"
proof -
  have ne: "scenario_events \<noteq> []"
    by (simp add: scenario_events_def)
  have ids: "distinct (map GEOID scenario_tracts)"
    by (simp add: scenario_tracts_def)
  have one: "list_all (\<lambda>c. length (containing shapely_within scenario_tracts c) \<le> 1)
      scenario_events"
    by code_simp
  show ?thesis
    using ne ids one conservation_without_overlap [OF ne ids one, of w0] by simp
qed

text \<open>
  Claim C1 as stated fails where polygons overlap: the single complaint of
  \<open>overlap_events\<close> is within both tracts of \<open>overlap_tracts\<close>, both get the count 1,
  no complaint is unmatched, and 1 + 1 + 0 is not 1.
\<close>

theorem conservation_overlap_counterexample:
  "\<not> conservation shapely_within overlap_events overlap_tracts w0"
  by code_simp

section \<open>Assignment of complaints to tracts\<close>





section \<open>Every tract is in the output\<close>

text \<open>
  Claim C3. The output of \<open>aggregate_by_census_tract\<close> has the rows of the census table,
  each once and in order, and a tract whose id no row of the joined table carries has
  the count 0.
\<close>

theorem tracts_never_dropped:
  "map region (fst (aggregate_by_census_tract joined_df census_gdf w)) = census_gdf
   \<and> (\<forall>a \<in> set (fst (aggregate_by_census_tract joined_df census_gdf w)).
        Some (GEOID (region a)) \<notin> set (map joined_GEOID joined_df) \<longrightarrow> complaint_count a = 0)"
proof -
  have keys: "set (List.map_filter joined_GEOID joined_df) =
      {g. Some g \<in> set (map joined_GEOID joined_df)}"
    by (induction joined_df) (auto simp: map_filter_simps split: option.splits)
  have out: "fst (aggregate_by_census_tract joined_df census_gdf w) =
      aggregate_rows joined_df census_gdf"
    by (simp add: aggregate_by_census_tract_def Let_def)
  have "map region (aggregate_rows joined_df census_gdf) = census_gdf"
    by (simp add: aggregate_rows_eq comp_def)
  moreover have "complaint_count a = 0"
    if "a \<in> set (aggregate_rows joined_df census_gdf)"
      and "Some (GEOID (region a)) \<notin> set (map joined_GEOID joined_df)" for a
  proof -
    from that(1) obtain t where a: "complaint_count a =
        count_list (List.map_filter joined_GEOID joined_df) (GEOID t)" and t: "region a = t"
      unfolding aggregate_rows_eq by auto
    have "GEOID t \<notin> set (List.map_filter joined_GEOID joined_df)"
      using that(2) t unfolding keys by simp
    then show ?thesis
      using a by simp
  qed
  ultimately show ?thesis
    unfolding out by blast
qed

theorem tracts_never_dropped_witness:
  "map region (fst (aggregate_by_census_tract pair_joined pair_tracts w0)) = pair_tracts
   \<and> Some (GEOID (region (fst (aggregate_by_census_tract pair_joined pair_tracts w0) ! 1)))
       \<notin> set (map joined_GEOID pair_joined)
   \<and> complaint_count (fst (aggregate_by_census_tract pair_joined pair_tracts w0) ! 1) = 0"
proof -
  let ?out = "fst (aggregate_by_census_tract pair_joined pair_tracts w0)"
  have len: "length ?out = 2"
    by code_simp
  have mem: "?out ! 1 \<in> set ?out"
    using len by simp
  have none: "Some (GEOID (region (?out ! 1))) \<notin> set (map joined_GEOID pair_joined)"
    by code_simp
  show ?thesis
    using tracts_never_dropped [of pair_joined pair_tracts w0] mem none by blast
qed

section \<open>The rate of a tract without inhabitants\<close>

text \<open>
  Claim C4, amended. For a tract with population 0 the aggregation raises nothing and the
  rate is never a finite number, so never 0: it is \<open>nan\<close> when the count is 0 and
  \<open>+inf\<close> when the count is positive.
\<close>

theorem zero_population_rate:
  assumes "a \<in> set (fst (aggregate_by_census_tract joined_df census_gdf w))"
    and "population (region a) = 0"
  shows "complaint_rate a = (if complaint_count a = 0 then NaN else PosInf)
         \<and> (\<forall>x. complaint_rate a \<noteq> Finite x)"
proof -
  have "complaint_rate a = rate_per_1000 (complaint_count a) 0"
    using assms aggregate_rows_rate [of a joined_df census_gdf]
    by (simp add: aggregate_by_census_tract_def Let_def)
  then show ?thesis
    by (simp add: rate_per_1000_def true_divide_def)
qed

theorem zero_population_rate_witness:
  "population (region (fst (aggregate_by_census_tract pair_joined zero_population_tracts w0) ! 0)) = 0
   \<and> complaint_count (fst (aggregate_by_census_tract pair_joined zero_population_tracts w0) ! 0) = 2
   \<and> complaint_rate (fst (aggregate_by_census_tract pair_joined zero_population_tracts w0) ! 0)
       = PosInf"
proof -
  let ?out = "fst (aggregate_by_census_tract pair_joined zero_population_tracts w0)"
  have len: "length ?out = 1"
    by code_simp
  have mem: "?out ! 0 \<in> set ?out"
    using len by simp
  have pop: "population (region (?out ! 0)) = 0"
    by code_simp
  have cnt: "complaint_count (?out ! 0) = 2"
    by code_simp
  show ?thesis
    using zero_population_rate [OF mem pop] pop cnt by simp
qed

text \<open>
  Claim C4 as stated fails for a positive count: with population 0 and one matched
  complaint the count is 1 and the rate is \<open>+inf\<close>, which \<open>isna\<close> does not take for a
  missing value.
\<close>

theorem zero_population_rate_counterexample:
  "map_sum id (map (\<lambda>a. (complaint_count a, complaint_rate a, isna (complaint_rate a))))
     (fst (join_and_aggregate shapely_within overlap_events zero_population_tracts w0))
   = Inr [(1, PosInf, False)]"
  by code_simp

section \<open>The scenario of the unit square\<close>

text \<open>
  Claim C8. One tract with population 2000 on the unit square and complaints at
  (0.2, 0.2), (0.5, 0.5) and (2.0, 2.0): the count is 2, the rate is 1, and the join reports
  one unmatched complaint.
\<close>

theorem unit_square_scenario:
  "fst (join_and_aggregate shapely_within scenario_events scenario_tracts w0) =
     Inr [\<lparr>region = tract_of ''36061000001'' 2000 unit_square, complaint_count = 2,
           complaint_rate = Finite 1\<rparr>]
   \<and> stdout (snd (join_and_aggregate shapely_within scenario_events scenario_tracts w0)) =
     [Text ''Performing spatial join with census tracts...'',
      Unmatched_report 1 (100 / 3),
      Text ''Aggregating complaints by census tract...'']"
  by code_simp

section \<open>Determinism of the join and the aggregation\<close>

lemma join_and_aggregate_result:
  "fst (join_and_aggregate pred complaints_df census_gdf w) =
     (if complaints_df = [] then Inl ZeroDivisionError
      else Inr (aggregate_rows
        (filter (\<lambda>r. joined_GEOID r \<noteq> None) (sjoin_left pred complaints_df census_gdf))
        census_gdf))"
  by (simp add: join_and_aggregate_def spatial_join_with_census_def
      aggregate_by_census_tract_def Let_def)

text \<open>
  Claim C9. The result of the join followed by the aggregation depends on the two tables
  only: it is the same from any two worlds (printed output, stored files, state of the
  random module), and a second run in the world left by the first returns what the first
  returned.
\<close>

theorem join_and_aggregate_deterministic:
  "fst (join_and_aggregate pred complaints_df census_gdf w) =
     fst (join_and_aggregate pred complaints_df census_gdf w')
   \<and> fst (join_and_aggregate pred complaints_df census_gdf
          (snd (join_and_aggregate pred complaints_df census_gdf w))) =
     fst (join_and_aggregate pred complaints_df census_gdf w)"
  by (simp only: join_and_aggregate_result simp_thms)

section \<open>Degenerate boundaries\<close>

lemma rows_for_member:
  "\<lparr>index_left = i, left_row = c, right_match = Some (j, t)\<rparr> \<in> set (rows_for pred right_df (i, c))
     \<longleftrightarrow> j < length right_df \<and> right_df ! j = t \<and> pred (points_from_xy c) (geometry t)"
proof -
  let ?hits = "filter (\<lambda>(j, t). pred (points_from_xy c) (geometry t)) (enumerate 0 right_df)"
  have hit: "(j, t) \<in> set ?hits \<longleftrightarrow>
      j < length right_df \<and> right_df ! j = t \<and> pred (points_from_xy c) (geometry t)"
    by (auto simp: in_set_enumerate_eq)
  show ?thesis
  proof (cases "?hits = []")
    case True
    with hit show ?thesis
      by (simp add: rows_for_def Let_def)
  next
    case False
    have "\<lparr>index_left = i, left_row = c, right_match = Some (j, t)\<rparr>
        \<in> set (map (\<lambda>h. \<lparr>index_left = i, left_row = c, right_match = Some h\<rparr>) ?hits)
      \<longleftrightarrow> (j, t) \<in> set ?hits"
      by auto
    with False hit show ?thesis
      by (simp add: rows_for_def Let_def)
  qed
qed

text \<open>
  Claim C7, amended. The join makes no check of the boundaries: whatever its polygon, a
  tract takes part in the containment test, and a complaint is joined to it exactly when
  the geometry library's predicate holds for the complaint's point and the polygon. For a
  complaints table that is not empty the join returns.
\<close>

theorem join_tests_every_tract:
  assumes i: "i < length complaints_df" and j: "j < length census_gdf"
  shows "\<exists>joined_df. fst (spatial_join_with_census pred complaints_df census_gdf w) = Inr joined_df
    \<and> (\<lparr>index_left = i, left_row = complaints_df ! i, right_match = Some (j, census_gdf ! j)\<rparr>
         \<in> set joined_df
       \<longleftrightarrow> pred (points_from_xy (complaints_df ! i)) (geometry (census_gdf ! j)))"
proof -
  let ?r = "\<lparr>index_left = i, left_row = complaints_df ! i,
    right_match = Some (j, census_gdf ! j)\<rparr>"
  let ?all = "sjoin_left pred complaints_df census_gdf"
  let ?joined = "filter (\<lambda>r. joined_GEOID r \<noteq> None) ?all"
  have ne: "complaints_df \<noteq> []"
    using i by auto
  have run: "fst (spatial_join_with_census pred complaints_df census_gdf w) = Inr ?joined"
    using ne by (rule spatial_join_result)
  have "?r \<in> set ?joined \<longleftrightarrow> ?r \<in> set ?all"
    by (simp add: joined_GEOID_def)
  also have "\<dots> \<longleftrightarrow> ?r \<in> set (assignments ?all i)"
    by (simp add: assignments_def)
  also have "\<dots> \<longleftrightarrow> ?r \<in> set (rows_for pred census_gdf (i, complaints_df ! i))"
    by (simp only: sjoin_left_assignments [OF i])
  also have "\<dots> \<longleftrightarrow> pred (points_from_xy (complaints_df ! i)) (geometry (census_gdf ! j))"
    using j by (simp add: rows_for_member)
  finally show ?thesis
    using run by blast
qed

theorem join_tests_every_tract_witness:
  "(0::nat) < length bowtie_events \<and> (0::nat) < length bowtie_tracts
   \<and> (\<exists>joined_df.
        fst (spatial_join_with_census shapely_within bowtie_events bowtie_tracts w0) = Inr joined_df
        \<and> (\<lparr>index_left = 0, left_row = bowtie_events ! 0,
              right_match = Some (0, bowtie_tracts ! 0)\<rparr> \<in> set joined_df
            \<longleftrightarrow> shapely_within (points_from_xy (bowtie_events ! 0))
                  (geometry (bowtie_tracts ! 0))))"
proof -
  have i: "(0::nat) < length bowtie_events"
    by (simp add: bowtie_events_def)
  have j: "(0::nat) < length bowtie_tracts"
    by (simp add: bowtie_tracts_def)
  show ?thesis
    using i j join_tests_every_tract [OF i j, of shapely_within w0] by blast
qed

text \<open>
  Claim C7 as stated fails for a ring that crosses itself: the tract of \<open>bowtie_tracts\<close>
  has a degenerate boundary, and the complaint in its left lobe is joined to it.
\<close>

theorem degenerate_tract_matched_counterexample:
  "degenerate (geometry (hd bowtie_tracts))
   \<and> fst (spatial_join_with_census shapely_within bowtie_events bowtie_tracts w0) =
       Inr [\<lparr>index_left = 0, left_row = event_at 1 (1 / 4) (1 / 2),
             right_match = Some (0, tract_of ''36061000001'' 2000 bowtie)\<rparr>]"
  by code_simp

section \<open>The sample generator of the complaints table\<close>

lemma create_sample_311_data_value:
  "create_sample_311_data = Inl (ValueError ''All arrays must be of the same length'')"
  by (simp add: create_sample_311_data_def DataFrame_def n_complaints_def map_filter_def
      listlike_length_def)

lemma create_sample_census_data_returns: "\<exists>gdf. create_sample_census_data = Inr gdf"
  by (simp add: create_sample_census_data_def DataFrame_def n_tracts_def map_filter_def
      listlike_length_def)

text \<open>
  Claim C5. \<open>create_sample_311_data\<close> raises instead of returning a data frame, because
  the list of \<^verbatim>\<open>'Location Type'\<close> has 3 entries and the other lists have 100000; so
  \<open>download_and_prepare_data\<close> returns exactly when the cached complaints file exists.
\<close>

theorem create_sample_311_data_raises:
  "create_sample_311_data = Inl (ValueError ''All arrays must be of the same length'')
   \<and> ((\<exists>r. fst (download_and_prepare_data fs) = Inr r) \<longleftrightarrow> nyc_311_2019_csv fs \<noteq> None)"
proof -
  obtain gdf where gdf: "create_sample_census_data = Inr gdf"
    using create_sample_census_data_returns by blast
  have "(\<exists>r. fst (download_and_prepare_data fs) = Inr r) \<longleftrightarrow> nyc_311_2019_csv fs \<noteq> None"
    by (cases "nyc_311_2019_csv fs"; cases "nyc_census_tracts_geojson fs")
      (simp_all add: download_and_prepare_data_def create_sample_311_data_value gdf)
  then show ?thesis
    using create_sample_311_data_value by blast
qed

theorem create_sample_311_data_raises_witness:
  "nyc_311_2019_csv cached_dir \<noteq> None
   \<and> (\<exists>r. fst (download_and_prepare_data cached_dir) = Inr r)"
  using create_sample_311_data_raises [of cached_dir] by (simp add: cached_dir_def)

section \<open>The entry point\<close>

lemma data_processing_undefined:
  "getattr_module data_processing_names ''process_data'' = Inl (AttributeError ''process_data'')"
  "getattr_module data_processing_names ''download_nyc_311_data'' =
     Inl (AttributeError ''download_nyc_311_data'')"
  "getattr_module data_processing_names ''download_census_tracts'' =
     Inl (AttributeError ''download_census_tracts'')"
  by (simp_all add: getattr_module_def data_processing_names_def)

text \<open>
  Claim C6. Whatever the arguments, the first step of \<open>main\<close> raises \<^verbatim>\<open>AttributeError\<close>:
  \<^verbatim>\<open>process_data\<close> without \<^verbatim>\<open>--skip-processing\<close>, \<^verbatim>\<open>download_nyc_311_data\<close> with it,
  and \<^verbatim>\<open>download_census_tracts\<close> is not defined either. \<open>main\<close> logs the error and
  returns: no function of any module has been called.
\<close>

theorem main_stops_at_data_processing:
  "main call a =
     [Info ''Starting NYC flood-related 311 complaints analysis'', Info_arguments a,
      Info (if skip_processing a then ''Skipping data processing, loading processed data''
            else ''Step 1: Processing data''),
      Error (if skip_processing a then ''Error loading processed data''
             else ''Error in data processing'')
        (AttributeError (if skip_processing a then ''download_nyc_311_data'' else ''process_data''))]
   \<and> \<not> list_ex is_call (main call a)
   \<and> getattr_module data_processing_names ''download_census_tracts'' =
       Inl (AttributeError ''download_census_tracts'')"
proof -
  have t: "main call a =
     [Info ''Starting NYC flood-related 311 complaints analysis'', Info_arguments a,
      Info (if skip_processing a then ''Skipping data processing, loading processed data''
            else ''Step 1: Processing data''),
      Error (if skip_processing a then ''Error loading processed data''
             else ''Error in data processing'')
        (AttributeError (if skip_processing a then ''download_nyc_311_data'' else ''process_data''))]"
    by (simp add: main_def data_processing_undefined)
  show ?thesis
    unfolding t by (simp add: is_call_def data_processing_undefined)
qed

end
